theory Spec2Isabelle
  imports Main
begin

section \<open>Endpoint resolver\<close>

text \<open>
  \<^verbatim>\<open>base.py\<close> obtains the label function with
  \<^verbatim>\<open>get_endpoint = endpoint.fn_by_type(endpoint_type, get_endpoint_fn)\<close> (line 111).
  The module \<^verbatim>\<open>endpoint\<close> is not among the source files, so the resolver is written
  after its description in the specification (section 4.1).
\<close>

text \<open>Python's \<^verbatim>\<open>str.split(sep)\<close> for a one-character separator: never an empty list.\<close>

fun split_on :: "char \<Rightarrow> string \<Rightarrow> string list" where
  "split_on sep [] = [] # []"
| "split_on sep (c # cs) =
     (if c = sep then [] # split_on sep cs
      else (let r = split_on sep cs in (c # hd r) # tl r))"

text \<open>Python's \<^verbatim>\<open>sep.join(parts)\<close> for a one-character separator.\<close>

fun join_with :: "char \<Rightarrow> string list \<Rightarrow> string" where
  "join_with sep [] = []"
| "join_with sep [x] = x"
| "join_with sep (x # y # ys) = x @ sep # join_with sep (y # ys)"

definition SEP :: char where
  "SEP = CHR ''/''"

text \<open>The path segments of the specification: the non-empty pieces between separators.\<close>

definition segments :: "string \<Rightarrow> string list" where
  "segments p = filter (\<lambda>s. s \<noteq> []) (split_on SEP p)"

text \<open>
  Modelled from the spec: the \<^verbatim>\<open>truncate:n\<close> strategy of the absent
  \<^verbatim>\<open>endpoint.fn_by_type\<close>. "Splits the path on its segment separator, keeps at most the
  first n non-empty segments, rejoins with a leading separator; if the path has \<open>\<le> n\<close>
  segments, it is returned unchanged."
\<close>

definition resolve_truncate :: "nat \<Rightarrow> string \<Rightarrow> string" where
  "resolve_truncate n p =
     (let segs = segments p
      in if length segs \<le> n then p else SEP # join_with SEP (take n segs))"

section \<open>Python values and errors\<close>

text \<open>
  Keyword arguments that \<^verbatim>\<open>monitor\<close> only tests or passes on are dynamically typed
  values. \<^verbatim>\<open>x is True\<close> holds for the boolean \<^verbatim>\<open>True\<close> alone, not for other truthy
  values such as \<^verbatim>\<open>1\<close>.
\<close>

datatype pyval = PyNone | PyBool bool | PyInt int | PyStr string | PyList "pyval list"

definition is_True :: "pyval \<Rightarrow> bool" where
  "is_True v = (v = PyBool True)"

text \<open>
  The exceptions that can leave the functions of \<^verbatim>\<open>base.py\<close>: its own configuration
  error, and those of the library calls it makes without a guard.
\<close>

datatype error = SanicPrometheusError string | ValueError | OverflowError | OSError

section \<open>The metrics client library\<close>

text \<open>
  \<^verbatim>\<open>prometheus_client\<close> is an external library. The model keeps what \<^verbatim>\<open>base.py\<close>
  calls: the process-global registry \<^verbatim>\<open>core.REGISTRY\<close>, \<^verbatim>\<open>CollectorRegistry()\<close>,
  \<^verbatim>\<open>multiprocess.MultiProcessCollector(registry)\<close>, \<^verbatim>\<open>generate_latest(registry)\<close>,
  \<^verbatim>\<open>start_http_server\<close>, \<^verbatim>\<open>multiprocess.mark_process_dead\<close> and the constant
  \<^verbatim>\<open>CONTENT_TYPE_LATEST\<close>. The text rendering itself is the library's: an exposition
  is kept as the list of samples it renders. Where a library call can raise, its result
  is an error or a value.
\<close>

record sample =
  sample_name :: string
  sample_labels :: "(string \<times> string) list"
  sample_value :: int

text \<open>
  An instrument has its declared label names and the observations made so far, each a
  tuple of label values with an amount (the increment of a counter, the observed value
  of a histogram).
\<close>

record instrument =
  label_names :: "string list"
  observations :: "(string list \<times> int) list"

text \<open>
  A file of a multiprocess directory: the process that writes it, whether it is a
  live-gauge file (the only kind \<^verbatim>\<open>mark_process_dead\<close> removes), and its samples.
\<close>

record shard_file =
  owner :: nat
  live_gauge :: bool
  contents :: "sample list"

text \<open>The multiprocess collector keeps the directory it was constructed with.\<close>

datatype collector =
    AppMetric string
  | Collector "sample list"
  | MultiProcessCollector string

type_synonym registry = "collector list"

record world =
  environ :: "string \<rightharpoonup> string"
  pid :: nat
  clock :: nat
  REGISTRY :: registry
  ctx_metrics :: "string \<rightharpoonup> instrument"
  directories :: "string \<rightharpoonup> shard_file list"
  dead_pids :: "nat list"
  http_servers :: "(string \<times> int) list"

text \<open>
  The process state: \<^verbatim>\<open>os.environ\<close>, \<^verbatim>\<open>os.getpid()\<close>, the monotonic clock, the global
  default registry, the application's \<^verbatim>\<open>ctx.metrics\<close> dictionary, the directories that
  exist with the shard files they hold, the process identifiers marked dead, and the
  addresses on which a listener is bound.
\<close>

definition samples_of :: "string \<Rightarrow> instrument \<Rightarrow> sample list" where
  "samples_of k i =
     map (\<lambda>(vals, x). \<lparr>sample_name = k, sample_labels = zip (label_names i) vals,
                        sample_value = x\<rparr>) (observations i)"

text \<open>Summing element-wise by metric name and label set, as the aggregator does.\<close>

fun add_sample :: "sample \<Rightarrow> sample list \<Rightarrow> sample list" where
  "add_sample s [] = [s]"
| "add_sample s (t # ts) =
     (if sample_name t = sample_name s \<and> sample_labels t = sample_labels s
      then t\<lparr>sample_value := sample_value t + sample_value s\<rparr> # ts
      else t # add_sample s ts)"

definition merge_samples :: "sample list \<Rightarrow> sample list" where
  "merge_samples ss = foldl (\<lambda>acc s. add_sample s acc) [] ss"

text \<open>
  The samples read from a directory. \<^verbatim>\<open>mark_process_dead\<close> removes the live-gauge files of
  a process and nothing else: counter and histogram files of a stopped worker still
  count. A directory that does not exist holds no file.
\<close>

definition live_shards :: "world \<Rightarrow> string \<Rightarrow> sample list" where
  "live_shards w p =
     concat (map contents
       (filter (\<lambda>f. \<not> (live_gauge f \<and> owner f \<in> set (dead_pids w)))
          (case directories w p of None \<Rightarrow> [] | Some fs \<Rightarrow> fs)))"

fun collect :: "world \<Rightarrow> collector \<Rightarrow> sample list" where
  "collect w (AppMetric k) = (case ctx_metrics w k of None \<Rightarrow> [] | Some i \<Rightarrow> samples_of k i)"
| "collect w (Collector ss) = ss"
| "collect w (MultiProcessCollector p) = merge_samples (live_shards w p)"

definition CollectorRegistry :: registry where
  "CollectorRegistry = []"

text \<open>
  \<^verbatim>\<open>MultiProcessCollector(registry)\<close>, called without a path as \<^verbatim>\<open>base.py\<close> does: the
  constructor takes the directory from the environment at the time of the call, raises
  \<^verbatim>\<open>ValueError\<close> when the variable is unset or does not name a directory, and otherwise
  registers the new collector with the registry.
\<close>

definition register_MultiProcessCollector :: "registry \<Rightarrow> world \<Rightarrow> error + registry" where
  "register_MultiProcessCollector registry w =
     (case environ w ''prometheus_multiproc_dir'' of
        None \<Rightarrow> Inl ValueError
      | Some p \<Rightarrow>
          (case directories w p of
             None \<Rightarrow> Inl ValueError
           | Some fs \<Rightarrow> Inr (registry @ [MultiProcessCollector p])))"

definition generate_latest :: "world \<Rightarrow> registry \<Rightarrow> sample list" where
  "generate_latest w registry = concat (map (collect w) registry)"

definition CONTENT_TYPE_LATEST :: string where
  "CONTENT_TYPE_LATEST = ''text/plain; version=0.0.4; charset=utf-8''"

text \<open>
  An address is in use when a listener is bound on the same port and the same interface,
  the empty address standing for every interface. Port 0 asks for any free port.
\<close>

definition address_in_use :: "string \<Rightarrow> int \<Rightarrow> world \<Rightarrow> bool" where
  "address_in_use addr port w =
     (port \<noteq> 0 \<and>
      list_ex (\<lambda>(a, p). p = port \<and> (a = addr \<or> a = [] \<or> addr = [])) (http_servers w))"

text \<open>
  \<^verbatim>\<open>start_http_server(addr, port)\<close> binds a listener. It raises \<^verbatim>\<open>OverflowError\<close> for a
  port outside 0..65535 and \<^verbatim>\<open>OSError\<close> when the address is in use; the state is then
  as it was.
\<close>

definition start_http_server :: "string \<Rightarrow> int \<Rightarrow> world \<Rightarrow> (error + unit) \<times> world" where
  "start_http_server addr port w =
     (if port < 0 \<or> 65535 < port then (Inl OverflowError, w)
      else if address_in_use addr port w then (Inl OSError, w)
      else (Inr (), w\<lparr>http_servers := http_servers w @ [(addr, port)]\<rparr>))"

text \<open>
  \<^verbatim>\<open>mark_process_dead(pid)\<close> is kept as a mark on the process identifier; the collector
  skips the live-gauge files of a marked process, which is what removing them amounts to.
\<close>

definition mark_process_dead :: "nat \<Rightarrow> world \<Rightarrow> world" where
  "mark_process_dead p w = w\<lparr>dead_pids := dead_pids w @ [p]\<rparr>"

section \<open>The web framework\<close>

text \<open>
  \<^verbatim>\<open>sanic\<close> is external as well. An application object collects routes, request and
  response middleware and lifecycle listeners; the closures \<^verbatim>\<open>base.py\<close> registers are
  kept as functions on the process state.
\<close>

text \<open>
  A request carries its path, its verb (\<^verbatim>\<open>request.method\<close>, here \<open>request_method\<close>) and,
  in its per-request context, the start timestamp once the before-hook has stored it.
\<close>

record request =
  path :: string
  request_method :: string
  start_time :: "nat option"

datatype body = Bytes string | Exposition "sample list"

record response =
  status :: nat
  body :: body
  content_type :: string

type_synonym handler = "request \<Rightarrow> world \<Rightarrow> (error + response) \<times> world"
type_synonym request_mw = "request \<Rightarrow> world \<Rightarrow> request \<times> world"
type_synonym response_mw = "request \<Rightarrow> response \<Rightarrow> world \<Rightarrow> world"
type_synonym listener = "world \<Rightarrow> world"

record app =
  routes :: "(string \<times> string list \<times> handler) list"
  request_middleware :: "request_mw list"
  response_middleware :: "response_mw list"
  listeners :: "(string \<times> listener) list"

definition Sanic :: app where
  "Sanic = \<lparr>routes = [], request_middleware = [], response_middleware = [], listeners = []\<rparr>"

definition route :: "string \<Rightarrow> string list \<Rightarrow> handler \<Rightarrow> app \<Rightarrow> app" where
  "route uri methods h a = a\<lparr>routes := routes a @ [(uri, methods, h)]\<rparr>"

text \<open>
  \<^verbatim>\<open>app.middleware('request')\<close> appends; \<^verbatim>\<open>app.middleware('response')\<close> puts the new
  middleware in front, so response middleware runs in reverse order of registration.
\<close>

definition middleware_request :: "request_mw \<Rightarrow> app \<Rightarrow> app" where
  "middleware_request m a = a\<lparr>request_middleware := request_middleware a @ [m]\<rparr>"

definition middleware_response :: "response_mw \<Rightarrow> app \<Rightarrow> app" where
  "middleware_response m a = a\<lparr>response_middleware := m # response_middleware a\<rparr>"

definition listener :: "string \<Rightarrow> listener \<Rightarrow> app \<Rightarrow> app" where
  "listener event l a = a\<lparr>listeners := listeners a @ [(event, l)]\<rparr>"

definition raw :: "body \<Rightarrow> string \<Rightarrow> response" where
  "raw b ct = \<lparr>status = 200, body = b, content_type = ct\<rparr>"

definition error_response :: "nat \<Rightarrow> response" where
  "error_response code = \<lparr>status = code, body = Bytes [], content_type = ''text/plain''\<rparr>"

fun find_route :: "(string \<times> string list \<times> handler) list \<Rightarrow> string
                    \<Rightarrow> (string list \<times> handler) option" where
  "find_route [] p = None"
| "find_route ((uri, methods, h) # rs) p =
     (if uri = p then Some (methods, h) else find_route rs p)"

text \<open>
  Routing: 404 for an unknown path, 405 for a verb the route does not accept, and 500
  when the handler raises.
\<close>

definition dispatch :: "app \<Rightarrow> request \<Rightarrow> world \<Rightarrow> response \<times> world" where
  "dispatch a r w =
     (case find_route (routes a) (path r) of
        None \<Rightarrow> (error_response 404, w)
      | Some (methods, h) \<Rightarrow>
          if request_method r \<in> set methods
          then (case h r w of
                  (Inl e, w') \<Rightarrow> (error_response 500, w')
                | (Inr resp, w') \<Rightarrow> (resp, w'))
          else (error_response 405, w))"

fun run_request_middleware :: "request_mw list \<Rightarrow> request \<Rightarrow> world \<Rightarrow> request \<times> world" where
  "run_request_middleware [] r w = (r, w)"
| "run_request_middleware (m # ms) r w =
     (case m r w of (r', w') \<Rightarrow> run_request_middleware ms r' w')"

fun run_response_middleware :: "response_mw list \<Rightarrow> request \<Rightarrow> response \<Rightarrow> world \<Rightarrow> world" where
  "run_response_middleware [] r resp w = w"
| "run_response_middleware (m # ms) r resp w = run_response_middleware ms r resp (m r resp w)"

text \<open>One request/response cycle: request middleware, the route handler, response middleware.\<close>

definition handle_request :: "app \<Rightarrow> request \<Rightarrow> world \<Rightarrow> response \<times> world" where
  "handle_request a r w =
     (case run_request_middleware (request_middleware a) r w of
        (r1, w1) \<Rightarrow>
          (case dispatch a r1 w1 of
             (resp, w2) \<Rightarrow> (resp, run_response_middleware (response_middleware a) r1 resp w2)))"

text \<open>Lifecycle events run the listeners registered under the event's name.\<close>

fun run_listeners :: "(string \<times> listener) list \<Rightarrow> string \<Rightarrow> world \<Rightarrow> world" where
  "run_listeners [] event w = w"
| "run_listeners ((e, l) # ls) event w =
     run_listeners ls event (if e = event then l w else w)"

definition server_start :: "app \<Rightarrow> world \<Rightarrow> world" where
  "server_start a w = run_listeners (listeners a) ''before_server_start'' w"

definition server_stop :: "app \<Rightarrow> world \<Rightarrow> world" where
  "server_stop a w = run_listeners (rev (listeners a)) ''after_server_stop'' w"

section \<open>Sibling modules that are not among the source files\<close>

datatype endpoint_type = Full | Truncate nat | Custom

text \<open>
  Modelled from the spec: \<^verbatim>\<open>endpoint.fn_by_type\<close>, absent from the source files. The three
  strategies of section 4.1: \<^verbatim>\<open>full\<close> returns the request path unchanged, \<^verbatim>\<open>truncate:n\<close>
  is \<^const>\<open>resolve_truncate\<close>, \<^verbatim>\<open>custom\<close> delegates to the supplied function and "fails
  (configuration error) at setup time if custom mode is selected without a supplied
  function". The strategy arrives as text (\<^verbatim>\<open>'url'\<close>, \<^verbatim>\<open>'url:n'\<close>, \<^verbatim>\<open>'custom'\<close>; the default
  of \<^verbatim>\<open>monitor\<close> is \<^verbatim>\<open>'url:1'\<close>); the model starts from the parsed strategy.
\<close>

definition fn_by_type :: "endpoint_type \<Rightarrow> (request \<Rightarrow> string) option
                            \<Rightarrow> error + (request \<Rightarrow> string)" where
  "fn_by_type t get_endpoint_fn =
     (case t of
        Full \<Rightarrow> Inr path
      | Truncate n \<Rightarrow> Inr (\<lambda>r. resolve_truncate n (path r))
      | Custom \<Rightarrow>
          (case get_endpoint_fn of
             None \<Rightarrow> Inl (SanicPrometheusError ''custom endpoint type requires get_endpoint_fn'')
           | Some f \<Rightarrow> Inr f))"

text \<open>
  Modelled from the spec: the keys of \<^verbatim>\<open>app.ctx.metrics\<close> under which the absent module
  \<^verbatim>\<open>metrics\<close> stores the request-duration histogram and the request-count counter; the
  spec names the instruments, not the keys.
\<close>

definition DURATION :: string where
  "DURATION = ''request_duration''"

definition COUNT :: string where
  "COUNT = ''request_count''"

text \<open>
  Modelled from the spec: the status class of a response ("mapped to a status-class
  bucket, e.g., 2xx/4xx/5xx"), used by the absent \<^verbatim>\<open>handlers\<close> module.
\<close>

definition status_class :: "nat \<Rightarrow> string" where
  "status_class s =
     (if s div 100 = 1 then ''1xx'' else if s div 100 = 2 then ''2xx''
      else if s div 100 = 3 then ''3xx'' else if s div 100 = 4 then ''4xx''
      else if s div 100 = 5 then ''5xx'' else ''other'')"

text \<open>
  The library's \<^verbatim>\<open>metric.labels(*values)\<close> followed by \<^verbatim>\<open>observe\<close> or \<^verbatim>\<open>inc\<close>: it needs one
  value for each declared label. A missing instrument or a wrong number of values leaves
  the state as it is (section 7: instrumentation errors are swallowed).
\<close>

definition record_observation :: "string \<Rightarrow> string list \<Rightarrow> int \<Rightarrow> world \<Rightarrow> world" where
  "record_observation k vals x w =
     (case ctx_metrics w k of
        None \<Rightarrow> w
      | Some i \<Rightarrow>
          if length vals = length (label_names i)
          then w\<lparr>ctx_metrics := (ctx_metrics w)(k \<mapsto> i\<lparr>observations := observations i @ [(vals, x)]\<rparr>)\<rparr>
          else w)"

text \<open>
  Modelled from the spec: \<^verbatim>\<open>handlers.before_request_handler\<close>, absent from the source
  files. "Records a monotonic start timestamp into the request's context."
\<close>

definition before_request_handler :: request_mw where
  "before_request_handler request w = (request\<lparr>start_time := Some (clock w)\<rparr>, w)"

text \<open>
  Modelled from the spec: \<^verbatim>\<open>handlers.after_request_endpoint_handler\<close>, absent from the
  source files. "Computes elapsed duration = now - start; resolves the endpoint label;
  reads response status (mapped to a status-class bucket); updates the duration histogram
  and the count counter with the full label set. If the before-hook never ran for this
  request (context missing), the after-hook must skip silently." The histogram is
  labelled by endpoint and method, the counter by endpoint, method and status class
  (section 4.2).
\<close>

definition after_request_endpoint_handler ::
    "request \<Rightarrow> response \<Rightarrow> (request \<Rightarrow> string) \<Rightarrow> world \<Rightarrow> world" where
  "after_request_endpoint_handler request response get_endpoint_fn w =
     (case start_time request of
        None \<Rightarrow> w
      | Some t0 \<Rightarrow>
          (let lat = int (clock w) - int t0;
               endpoint = get_endpoint_fn request
           in record_observation COUNT [endpoint, request_method request, status_class (status response)] 1
                (record_observation DURATION [endpoint, request_method request] lat w)))"

text \<open>
  The modules \<^verbatim>\<open>metrics\<close> and \<^verbatim>\<open>constants\<close> are absent as well. \<^verbatim>\<open>monitor\<close> only hands its
  arguments to \<^verbatim>\<open>metrics.init\<close> and falls back to \<^verbatim>\<open>constants.BaseMetrics\<close>, so both are
  parameters of the model.
\<close>

record package =
  metrics_init :: "pyval \<Rightarrow> pyval \<Rightarrow> pyval \<Rightarrow> pyval \<Rightarrow> world \<Rightarrow> world"
  BaseMetrics :: pyval

section \<open>base.py\<close>

text \<open>
  \<^verbatim>\<open>MonitorSetup\<close> keeps a reference to the application, the metrics path and the
  multiprocess flag. The application is a mutable object: its state is passed to and
  returned by the operations that change it.
\<close>

record MonitorSetup =
  self_metrics_path :: string
  self_multiprocess_on :: bool

text \<open>
  \<^verbatim>\<open>_get_metrics_data\<close>: the registry is a local variable of the call; the library calls
  only read the process state. An exception of the collector's constructor leaves the
  function.
\<close>

definition get_metrics_data :: "MonitorSetup \<Rightarrow> world \<Rightarrow> error + sample list" where
  "get_metrics_data self w =
     (if \<not> self_multiprocess_on self then Inr (generate_latest w (REGISTRY w))
      else (case register_MultiProcessCollector CollectorRegistry w of
              Inl e \<Rightarrow> Inl e
            | Inr registry \<Rightarrow> Inr (generate_latest w registry)))"

definition expose_metrics :: "MonitorSetup \<Rightarrow> handler" where
  "expose_metrics self request w =
     (case get_metrics_data self w of
        Inl e \<Rightarrow> (Inl e, w)
      | Inr data \<Rightarrow> (Inr (raw (Exposition data) CONTENT_TYPE_LATEST), w))"

definition expose_endpoint :: "MonitorSetup \<Rightarrow> app \<Rightarrow> app" where
  "expose_endpoint self a = route (self_metrics_path self) [''GET''] (expose_metrics self) a"

text \<open>An exception leaves the state as it was when raised: the result pairs both.\<close>

definition start_server :: "MonitorSetup \<Rightarrow> string \<Rightarrow> int \<Rightarrow> world \<Rightarrow> (error + unit) \<times> world" where
  "start_server self addr port w =
     (if self_multiprocess_on self
      then (Inl (SanicPrometheusError
                   ''start_server can not be used when multiprocessing is turned on''), w)
      else start_http_server addr port w)"

record monitor_args =
  endpoint_type :: endpoint_type
  get_endpoint_fn :: "(request \<Rightarrow> string) option"
  latency_buckets :: pyval
  multiprocess_mode :: pyval
  metrics_path :: string
  is_middleware :: pyval
  metrics_list :: pyval
  before_handler :: "request_mw option"
  after_handler :: "(request \<Rightarrow> response \<Rightarrow> (request \<Rightarrow> string) \<Rightarrow> world \<Rightarrow> world) option"
  base_metrics :: pyval
  init_metrics_object :: "(string \<rightharpoonup> instrument) option"

definition default_args :: monitor_args where
  "default_args =
     \<lparr>endpoint_type = Truncate 1, get_endpoint_fn = None, latency_buckets = PyNone,
      multiprocess_mode = PyStr ''all'', metrics_path = ''/metrics'',
      is_middleware = PyBool True, metrics_list = PyNone, before_handler = None,
      after_handler = None, base_metrics = PyNone, init_metrics_object = None\<rparr>"

text \<open>The closures that \<^verbatim>\<open>monitor\<close> registers, with the variables they capture.\<close>

definition before_start :: "package \<Rightarrow> monitor_args \<Rightarrow> pyval \<Rightarrow> listener" where
  "before_start pkg args base_metrics' w =
     metrics_init pkg (latency_buckets args) (multiprocess_mode args) (metrics_list args)
       base_metrics'
       (w\<lparr>ctx_metrics := (case init_metrics_object args of None \<Rightarrow> Map.empty | Some m \<Rightarrow> m)\<rparr>)"

definition before_request :: "string \<Rightarrow> request_mw \<Rightarrow> request_mw" where
  "before_request metrics_path' before_handler' request w =
     (if path request \<noteq> metrics_path' \<and> request_method request \<noteq> ''OPTIONS''
      then before_handler' request w else (request, w))"

definition before_response ::
    "string \<Rightarrow> (request \<Rightarrow> response \<Rightarrow> (request \<Rightarrow> string) \<Rightarrow> world \<Rightarrow> world)
       \<Rightarrow> (request \<Rightarrow> string) \<Rightarrow> response_mw" where
  "before_response metrics_path' after_handler' get_endpoint request response w =
     (if path request \<noteq> metrics_path' \<and> request_method request \<noteq> ''OPTIONS''
      then after_handler' request response get_endpoint w else w)"

definition after_stop :: listener where
  "after_stop w = mark_process_dead (pid w) w"

definition monitor :: "package \<Rightarrow> app \<Rightarrow> monitor_args \<Rightarrow> world \<Rightarrow> error + (MonitorSetup \<times> app)" where
  "monitor pkg a args w =
     (let multiprocess_on = (environ w ''prometheus_multiproc_dir'' \<noteq> None)
      in case fn_by_type (endpoint_type args) (get_endpoint_fn args) of
           Inl e \<Rightarrow> Inl e
         | Inr get_endpoint \<Rightarrow>
             (let base_metrics' =
                    (if base_metrics args = PyNone then BaseMetrics pkg else base_metrics args);
                  before_handler' =
                    (case before_handler args of None \<Rightarrow> before_request_handler | Some h \<Rightarrow> h);
                  after_handler' =
                    (case after_handler args of
                       None \<Rightarrow> after_request_endpoint_handler | Some h \<Rightarrow> h);
                  a1 = listener ''before_server_start'' (before_start pkg args base_metrics') a;
                  a2 = (if is_True (is_middleware args)
                        then middleware_response
                               (before_response (metrics_path args) after_handler' get_endpoint)
                               (middleware_request
                                  (before_request (metrics_path args) before_handler') a1)
                        else a1);
                  a3 = (if multiprocess_on then listener ''after_server_stop'' after_stop a2
                        else a2)
              in Inr (\<lparr>self_metrics_path = metrics_path args,
                       self_multiprocess_on = multiprocess_on\<rparr>, a3)))"

section \<open>Notions used in the statements\<close>

text \<open>The hooks in effect: the caller's replacement, or the default of the package.\<close>

definition before_hook :: "monitor_args \<Rightarrow> request_mw" where
  "before_hook args = (case before_handler args of None \<Rightarrow> before_request_handler | Some h \<Rightarrow> h)"

definition after_hook ::
    "monitor_args \<Rightarrow> request \<Rightarrow> response \<Rightarrow> (request \<Rightarrow> string) \<Rightarrow> world \<Rightarrow> world" where
  "after_hook args =
     (case after_handler args of None \<Rightarrow> after_request_endpoint_handler | Some h \<Rightarrow> h)"

definition stop_hooks :: "app \<Rightarrow> (string \<times> listener) list" where
  "stop_hooks a = filter (\<lambda>(e, _). e = ''after_server_stop'') (listeners a)"

text \<open>
  The reference behaviour of one instrumented cycle, after section 2 of the specification:
  the before-hook, then the handler, then the after-hook, each exactly once.
\<close>

definition instrumented_cycle ::
    "request_mw \<Rightarrow> (request \<Rightarrow> response \<Rightarrow> (request \<Rightarrow> string) \<Rightarrow> world \<Rightarrow> world)
       \<Rightarrow> (request \<Rightarrow> string) \<Rightarrow> app \<Rightarrow> request \<Rightarrow> world \<Rightarrow> response \<times> world" where
  "instrumented_cycle bh ah ge a r w =
     (case bh r w of
        (r1, w1) \<Rightarrow> (case dispatch a r1 w1 of (resp, w2) \<Rightarrow> (resp, ah r1 resp ge w2)))"

definition observe :: "string list \<Rightarrow> int \<Rightarrow> instrument \<Rightarrow> instrument" where
  "observe vals x i = i\<lparr>observations := observations i @ [(vals, x)]\<rparr>"

section \<open>Example states\<close>

text \<open>
  Concrete inputs at which the theorems are evaluated: an instance of the absent
  \<^verbatim>\<open>metrics.init\<close> that creates the two default instruments and registers them with the
  global registry, a single-process and a two-worker process state, and an application
  with one route.
\<close>

definition example_pkg :: package where
  "example_pkg =
     \<lparr>metrics_init = (\<lambda>buckets mode names base w.
        w\<lparr>REGISTRY := REGISTRY w @ [AppMetric DURATION, AppMetric COUNT],
          ctx_metrics := (ctx_metrics w)
            (DURATION \<mapsto> \<lparr>label_names = [''endpoint'', ''method''], observations = []\<rparr>,
             COUNT \<mapsto> \<lparr>label_names = [''endpoint'', ''method'', ''status''],
                        observations = []\<rparr>)\<rparr>),
      BaseMetrics = PyList [PyStr ''request_duration'', PyStr ''request_count'']\<rparr>"

definition example_world :: world where
  "example_world =
     \<lparr>environ = Map.empty, pid = 17, clock = 100,
      REGISTRY = [Collector [\<lparr>sample_name = ''process_open_fds'', sample_labels = [],
                              sample_value = 8\<rparr>]],
      ctx_metrics = Map.empty, directories = Map.empty, dead_pids = [], http_servers = []\<rparr>"

definition example_shard :: "sample list" where
  "example_shard =
     [\<lparr>sample_name = ''request_count'',
       sample_labels = [(''endpoint'', ''/users''), (''method'', ''GET''), (''status'', ''2xx'')],
       sample_value = 1\<rparr>]"

definition example_files :: "shard_file list" where
  "example_files =
     [\<lparr>owner = 17, live_gauge = False, contents = example_shard\<rparr>,
      \<lparr>owner = 18, live_gauge = False, contents = example_shard\<rparr>]"

definition example_world_mp :: world where
  "example_world_mp =
     example_world\<lparr>environ := [''prometheus_multiproc_dir'' \<mapsto> ''/tmp/prom''],
                   directories := [''/tmp/prom'' \<mapsto> example_files]\<rparr>"


definition orders_handler :: handler where
  "orders_handler r w = (Inr (raw (Bytes ''ok'') ''text/plain''), w\<lparr>clock := clock w + 5\<rparr>)"

definition example_app :: app where
  "example_app = route ''/users/42/orders'' [''GET''] orders_handler Sanic"

definition example_setup :: MonitorSetup where
  "example_setup = \<lparr>self_metrics_path = ''/metrics'', self_multiprocess_on = False\<rparr>"

definition example_setup_mp :: MonitorSetup where
  "example_setup_mp = \<lparr>self_metrics_path = ''/metrics'', self_multiprocess_on = True\<rparr>"

definition example_monitored :: app where
  "example_monitored =
     \<lparr>routes = [(''/users/42/orders'', [''GET''], orders_handler)],
      request_middleware = [before_request ''/metrics'' before_request_handler],
      response_middleware =
        [before_response ''/metrics'' after_request_endpoint_handler
           (\<lambda>r. resolve_truncate 1 (path r))],
      listeners =
        [(''before_server_start'',
          before_start example_pkg default_args (BaseMetrics example_pkg))]\<rparr>"

definition example_request :: request where
  "example_request = \<lparr>path = ''/users/42/orders'', request_method = ''GET'', start_time = None\<rparr>"

definition scrape_request :: request where
  "scrape_request = \<lparr>path = ''/metrics'', request_method = ''GET'', start_time = None\<rparr>"

definition options_request :: request where
  "options_request = \<lparr>path = ''/users/42/orders'', request_method = ''OPTIONS'', start_time = None\<rparr>"

definition example_monitored_mp :: app where
  "example_monitored_mp =
     example_monitored\<lparr>listeners := listeners example_monitored @
                          [(''after_server_stop'', after_stop)]\<rparr>"

definition example_unmonitored :: app where
  "example_unmonitored =
     example_app\<lparr>listeners :=
       [(''before_server_start'',
         before_start example_pkg (default_args\<lparr>is_middleware := PyInt 1\<rparr>)
           (BaseMetrics example_pkg))]\<rparr>"

section \<open>Auxiliary facts\<close>

lemma split_on_not_Nil: "split_on s p \<noteq> []"
  by (induction p) (auto simp: Let_def)

lemma split_on_pieces: "x \<in> set (split_on s p) \<Longrightarrow> s \<notin> set x"
proof (induction p arbitrary: x)
  case Nil
  then show ?case by simp
next
  case (Cons c cs)
  obtain y ys where r: "split_on s cs = y # ys"
    using split_on_not_Nil [of s cs] by (cases "split_on s cs") auto
  show ?case
  proof (cases "c = s")
    case True
    with Cons show ?thesis by auto
  next
    case False
    with Cons.prems r have "x = c # y \<or> x \<in> set ys" by (simp add: Let_def)
    with False r Cons.IH [of y] Cons.IH [of x] show ?thesis by auto
  qed
qed

lemma split_on_plain: "s \<notin> set x \<Longrightarrow> split_on s x = [x]"
  by (induction x) (auto simp: Let_def)

lemma split_on_append: "s \<notin> set x \<Longrightarrow> split_on s (x @ s # p) = x # split_on s p"
  by (induction x) (auto simp: Let_def)

lemma split_on_join:
  "xs \<noteq> [] \<Longrightarrow> \<forall>x\<in>set xs. s \<notin> set x \<Longrightarrow> split_on s (join_with s xs) = xs"
  by (induction s xs rule: join_with.induct) (auto simp: split_on_append split_on_plain)

lemma segments_pieces: "x \<in> set (segments p) \<Longrightarrow> x \<noteq> [] \<and> SEP \<notin> set x"
  by (auto simp: segments_def dest: split_on_pieces)

lemma segments_rejoined:
  assumes "\<forall>x\<in>set xs. x \<noteq> [] \<and> SEP \<notin> set x"
  shows "segments (SEP # join_with SEP xs) = xs"
proof (cases "xs = []")
  case True
  then show ?thesis by (simp add: segments_def)
next
  case False
  with assms have "split_on SEP (join_with SEP xs) = xs"
    by (simp add: split_on_join)
  with assms show ?thesis
    by (simp add: segments_def filter_id_conv)
qed

lemma segments_resolve_truncate: "segments (resolve_truncate n p) = take n (segments p)"
proof (cases "length (segments p) \<le> n")
  case True
  then show ?thesis by (simp add: resolve_truncate_def)
next
  case False
  have "\<forall>x\<in>set (take n (segments p)). x \<noteq> [] \<and> SEP \<notin> set x"
    using segments_pieces by (blast dest: in_set_takeD)
  with False show ?thesis
    by (simp add: resolve_truncate_def segments_rejoined)
qed

lemma monitor_Inr:
  assumes "monitor pkg a args w0 = Inr (setup, a')"
  shows "\<exists>ge. fn_by_type (endpoint_type args) (get_endpoint_fn args) = Inr ge \<and>
    setup = \<lparr>self_metrics_path = metrics_path args,
             self_multiprocess_on = (environ w0 ''prometheus_multiproc_dir'' \<noteq> None)\<rparr> \<and>
    routes a' = routes a \<and>
    request_middleware a' = request_middleware a @
      (if is_middleware args = PyBool True
       then [before_request (metrics_path args) (before_hook args)] else []) \<and>
    response_middleware a' =
      (if is_middleware args = PyBool True
       then [before_response (metrics_path args) (after_hook args) ge] else []) @
      response_middleware a \<and>
    listeners a' = listeners a @
      [(''before_server_start'',
        before_start pkg args
          (if base_metrics args = PyNone then BaseMetrics pkg else base_metrics args))] @
      (if environ w0 ''prometheus_multiproc_dir'' \<noteq> None
       then [(''after_server_stop'', after_stop)] else [])"
  using assms
  by (auto simp: monitor_def Let_def is_True_def before_hook_def after_hook_def listener_def
      middleware_request_def middleware_response_def split: sum.splits if_splits)

lemma monitored_cycle:
  assumes mon: "monitor pkg a args w0 = Inr (setup, a')"
    and fresh: "request_middleware a = [] \<and> response_middleware a = []"
    and mw: "is_middleware args = PyBool True"
    and incl: "path r \<noteq> metrics_path args \<and> request_method r \<noteq> ''OPTIONS''"
    and kept: "path (fst (before_hook args r w)) \<noteq> metrics_path args \<and>
               request_method (fst (before_hook args r w)) \<noteq> ''OPTIONS''"
  shows "\<exists>ge. fn_by_type (endpoint_type args) (get_endpoint_fn args) = Inr ge \<and>
           handle_request a' r w =
             instrumented_cycle (before_hook args) (after_hook args) ge a' r w"
proof -
  from monitor_Inr [OF mon] obtain ge where
    ge: "fn_by_type (endpoint_type args) (get_endpoint_fn args) = Inr ge"
    and rq: "request_middleware a' = [before_request (metrics_path args) (before_hook args)]"
    and rs: "response_middleware a' = [before_response (metrics_path args) (after_hook args) ge]"
    using fresh mw by auto
  have "handle_request a' r w =
          instrumented_cycle (before_hook args) (after_hook args) ge a' r w"
  proof (cases "before_hook args r w")
    case (Pair r1 w1)
    with incl kept show ?thesis
      by (simp add: handle_request_def instrumented_cycle_def rq rs before_request_def
          before_response_def split: prod.splits)
  qed
  with ge show ?thesis by blast
qed

lemma record_observation_present:
  "ctx_metrics w k = Some i \<Longrightarrow> length vals = length (label_names i) \<Longrightarrow>
   record_observation k vals x w = w\<lparr>ctx_metrics := (ctx_metrics w)(k \<mapsto> observe vals x i)\<rparr>"
  by (simp add: record_observation_def observe_def)

lemma DURATION_neq_COUNT: "DURATION \<noteq> COUNT"
  by (simp add: DURATION_def COUNT_def)

lemma after_handler_records:
  assumes "start_time r = Some t0"
    and "ctx_metrics w DURATION = Some h" "label_names h = [''endpoint'', ''method'']"
    and "ctx_metrics w COUNT = Some c" "label_names c = [''endpoint'', ''method'', ''status'']"
  shows "after_request_endpoint_handler r resp ge w =
           w\<lparr>ctx_metrics := (ctx_metrics w)
               (DURATION \<mapsto> observe [ge r, request_method r] (int (clock w) - int t0) h,
                COUNT \<mapsto> observe [ge r, request_method r, status_class (status resp)] 1 c)\<rparr>"
  using assms DURATION_neq_COUNT
  by (simp add: after_request_endpoint_handler_def Let_def record_observation_present)

lemma find_route_append:
  "find_route (rs @ [(u, ms, h)]) p =
     (case find_route rs p of
        None \<Rightarrow> (if u = p then Some (ms, h) else None)
      | Some x \<Rightarrow> Some x)"
  by (induction rs) auto

lemma run_listeners_filter:
  "run_listeners (filter (\<lambda>(e', _). e' = e) ls) e w = run_listeners ls e w"
  by (induction ls arbitrary: w) auto

lemma example_monitor:
  "monitor example_pkg example_app default_args example_world =
     Inr (example_setup, example_monitored)"
  by (simp add: monitor_def fn_by_type_def default_args_def example_world_def Let_def
      is_True_def listener_def middleware_request_def middleware_response_def
      example_app_def route_def Sanic_def example_setup_def example_monitored_def)

lemma example_started:
  "server_start example_monitored w =
     w\<lparr>REGISTRY := REGISTRY w @ [AppMetric DURATION, AppMetric COUNT],
       ctx_metrics :=
         [DURATION \<mapsto> \<lparr>label_names = [''endpoint'', ''method''], observations = []\<rparr>,
          COUNT \<mapsto> \<lparr>label_names = [''endpoint'', ''method'', ''status''],
                     observations = []\<rparr>]\<rparr>"
  by (simp add: server_start_def example_monitored_def before_start_def example_pkg_def
      default_args_def)

lemma example_monitor_mp:
  "monitor example_pkg example_app default_args example_world_mp =
     Inr (example_setup_mp, example_monitored_mp)"
  by (simp add: monitor_def fn_by_type_def default_args_def example_world_mp_def Let_def
      is_True_def listener_def middleware_request_def middleware_response_def
      example_app_def route_def Sanic_def example_setup_mp_def example_monitored_def
      example_monitored_mp_def)

lemma example_monitor_off:
  "monitor example_pkg example_app (default_args\<lparr>is_middleware := PyInt 1\<rparr>) example_world =
     Inr (example_setup, example_unmonitored)"
  by (simp add: monitor_def fn_by_type_def default_args_def example_world_def Let_def
      is_True_def listener_def example_app_def route_def Sanic_def example_setup_def
      example_unmonitored_def)

lemma example_app_fresh:
  "request_middleware example_app = [] \<and> response_middleware example_app = []"
  by (simp add: example_app_def route_def Sanic_def)




lemma example_cycle:
  "handle_request example_monitored example_request (server_start example_monitored w) =
     (raw (Bytes ''ok'') ''text/plain'',
      w\<lparr>clock := clock w + 5,
        REGISTRY := REGISTRY w @ [AppMetric DURATION, AppMetric COUNT],
        ctx_metrics :=
          [DURATION \<mapsto> \<lparr>label_names = [''endpoint'', ''method''],
                           observations = [([''/users'', ''GET''], 5)]\<rparr>,
           COUNT \<mapsto> \<lparr>label_names = [''endpoint'', ''method'', ''status''],
                        observations = [([''/users'', ''GET'', ''2xx''], 1)]\<rparr>]\<rparr>)"
proof -
  have label: "resolve_truncate (Suc 0) ''/users/42/orders'' = ''/users''"
    by (simp add: resolve_truncate_def segments_def SEP_def Let_def)
  show ?thesis
    by (simp add: handle_request_def example_monitored_def before_request_def
        before_response_def example_request_def before_request_handler_def dispatch_def
        orders_handler_def after_request_endpoint_handler_def record_observation_def Let_def
        server_start_def before_start_def example_pkg_def default_args_def
        DURATION_def COUNT_def label raw_def status_class_def)
qed

section \<open>Verified properties\<close>

text \<open>
  Claim C1. With middleware enabled, a request that is not excluded (its path is not the
  metrics path and its method is not OPTIONS) passes the registered request middleware as
  one call of the before-hook in effect and the registered response middleware as one
  call of the after-hook in effect; unless a replacement before-hook rewrites the request
  into an excluded one, the whole cycle is the before-hook, then the handler, then the
  after-hook, each exactly once. With the default hooks, and the duration histogram and
  the request counter registered with their declared labels, the cycle adds exactly one
  observation to each (the elapsed time to the histogram, an increment of one to the
  counter), every other part of the state is as the handler left it, and the label set of
  each new sample assigns exactly the declared label names.
\<close>

theorem monitored_request_recorded_once:
  assumes mon: "monitor pkg a args w0 = Inr (setup, a')"
    and fresh: "request_middleware a = [] \<and> response_middleware a = []"
    and mw: "is_middleware args = PyBool True"
    and incl: "path r \<noteq> metrics_path args \<and> request_method r \<noteq> ''OPTIONS''"
    and disp: "dispatch a' (r\<lparr>start_time := Some (clock w)\<rparr>) w = (resp, w2)"
    and hist: "ctx_metrics w2 DURATION = Some h \<and> label_names h = [''endpoint'', ''method'']"
    and cnt: "ctx_metrics w2 COUNT = Some c \<and>
              label_names c = [''endpoint'', ''method'', ''status'']"
  shows "\<exists>ge h' c'.
           fn_by_type (endpoint_type args) (get_endpoint_fn args) = Inr ge \<and>
           run_request_middleware (request_middleware a') r w = before_hook args r w \<and>
           run_response_middleware (response_middleware a') r resp w2 =
             after_hook args r resp ge w2 \<and>
           (path (fst (before_hook args r w)) \<noteq> metrics_path args \<and>
            request_method (fst (before_hook args r w)) \<noteq> ''OPTIONS''
              \<longrightarrow> handle_request a' r w =
                    instrumented_cycle (before_hook args) (after_hook args) ge a' r w) \<and>
           (before_handler args = None \<and> after_handler args = None
              \<longrightarrow> handle_request a' r w =
                    instrumented_cycle before_request_handler after_request_endpoint_handler
                      ge a' r w \<and>
                  h' = observe [ge (r\<lparr>start_time := Some (clock w)\<rparr>), request_method r]
                         (int (clock w2) - int (clock w)) h \<and>
                  c' = observe [ge (r\<lparr>start_time := Some (clock w)\<rparr>), request_method r,
                                status_class (status resp)] 1 c \<and>
                  handle_request a' r w =
                    (resp, w2\<lparr>ctx_metrics :=
                                 (ctx_metrics w2)(DURATION \<mapsto> h', COUNT \<mapsto> c')\<rparr>) \<and>
                  length (observations h') = length (observations h) + 1 \<and>
                  length (observations c') = length (observations c) + 1 \<and>
                  map fst (sample_labels (last (samples_of DURATION h'))) = label_names h' \<and>
                  map fst (sample_labels (last (samples_of COUNT c'))) = label_names c')"
proof -
  let ?r1 = "r\<lparr>start_time := Some (clock w)\<rparr>"
  let ?h' = "observe [ge ?r1, request_method r] (int (clock w2) - int (clock w)) h"
  from monitor_Inr [OF mon] obtain ge where
    ge: "fn_by_type (endpoint_type args) (get_endpoint_fn args) = Inr ge"
    and rq: "request_middleware a' = [before_request (metrics_path args) (before_hook args)]"
    and rs: "response_middleware a' = [before_response (metrics_path args) (after_hook args) ge]"
    using fresh mw by auto
  have before: "run_request_middleware (request_middleware a') r w = before_hook args r w"
    using incl by (cases "before_hook args r w") (simp add: rq before_request_def)
  have after: "run_response_middleware (response_middleware a') r resp w2 =
                 after_hook args r resp ge w2"
    using incl by (simp add: rs before_response_def)
  have cycle: "handle_request a' r w =
                 instrumented_cycle (before_hook args) (after_hook args) ge a' r w"
    if kept: "path (fst (before_hook args r w)) \<noteq> metrics_path args \<and>
              request_method (fst (before_hook args r w)) \<noteq> ''OPTIONS''"
    using monitored_cycle [OF mon fresh mw incl kept] ge by auto
  have dflt: "handle_request a' r w =
                instrumented_cycle before_request_handler after_request_endpoint_handler
                  ge a' r w \<and>
              handle_request a' r w =
                (resp, w2\<lparr>ctx_metrics := (ctx_metrics w2)
                   (DURATION \<mapsto> observe [ge ?r1, request_method r]
                                   (int (clock w2) - int (clock w)) h,
                    COUNT \<mapsto> observe [ge ?r1, request_method r, status_class (status resp)]
                                1 c)\<rparr>)"
    if d: "before_handler args = None \<and> after_handler args = None"
  proof -
    have bh: "before_hook args = before_request_handler"
      and ah: "after_hook args = after_request_endpoint_handler"
      using d by (simp_all add: before_hook_def after_hook_def)
    have "path (fst (before_hook args r w)) \<noteq> metrics_path args \<and>
          request_method (fst (before_hook args r w)) \<noteq> ''OPTIONS''"
      using incl by (simp add: bh before_request_handler_def)
    from cycle [OF this]
    have cyc: "handle_request a' r w =
                 instrumented_cycle before_request_handler after_request_endpoint_handler
                   ge a' r w"
      by (simp add: bh ah)
    have rec: "after_request_endpoint_handler ?r1 resp ge w2 =
                 w2\<lparr>ctx_metrics := (ctx_metrics w2)
                     (DURATION \<mapsto> observe [ge ?r1, request_method ?r1]
                                     (int (clock w2) - int (clock w)) h,
                      COUNT \<mapsto> observe [ge ?r1, request_method ?r1,
                                           status_class (status resp)] 1 c)\<rparr>"
      using hist cnt by (intro after_handler_records) simp_all
    have "handle_request a' r w =
            (resp, w2\<lparr>ctx_metrics := (ctx_metrics w2)
               (DURATION \<mapsto> observe [ge ?r1, request_method r]
                               (int (clock w2) - int (clock w)) h,
                COUNT \<mapsto> observe [ge ?r1, request_method r, status_class (status resp)]
                            1 c)\<rparr>)"
      using rec disp by (simp add: cyc instrumented_cycle_def before_request_handler_def)
    with cyc show ?thesis by simp
  qed
  have tot: "map fst (sample_labels (last (samples_of DURATION
                 (observe [ge ?r1, request_method r] (int (clock w2) - int (clock w)) h)))) =
               label_names (observe [ge ?r1, request_method r]
                              (int (clock w2) - int (clock w)) h)"
    "map fst (sample_labels (last (samples_of COUNT
                 (observe [ge ?r1, request_method r, status_class (status resp)] 1 c)))) =
               label_names (observe [ge ?r1, request_method r, status_class (status resp)] 1 c)"
    using hist cnt by (simp_all add: samples_of_def observe_def)
  have len: "length (observations (observe vals x i)) = length (observations i) + 1"
    for vals x i
    by (simp add: observe_def)
  show ?thesis
  proof (intro exI conjI impI)
    show "fn_by_type (endpoint_type args) (get_endpoint_fn args) = Inr ge"
      by (rule ge)
    show "run_request_middleware (request_middleware a') r w = before_hook args r w"
      by (rule before)
    show "run_response_middleware (response_middleware a') r resp w2 =
            after_hook args r resp ge w2"
      by (rule after)
    show "handle_request a' r w =
            instrumented_cycle (before_hook args) (after_hook args) ge a' r w"
      if "path (fst (before_hook args r w)) \<noteq> metrics_path args \<and>
          request_method (fst (before_hook args r w)) \<noteq> ''OPTIONS''"
      using that by (rule cycle)
    show "handle_request a' r w =
            instrumented_cycle before_request_handler after_request_endpoint_handler ge a' r w"
      if "before_handler args = None \<and> after_handler args = None"
      using that by (rule dflt [THEN conjunct1])
    show "observe [ge ?r1, request_method r] (int (clock w2) - int (clock w)) h =
            observe [ge ?r1, request_method r] (int (clock w2) - int (clock w)) h"
      by (rule refl)
    show "observe [ge ?r1, request_method r, status_class (status resp)] 1 c =
            observe [ge ?r1, request_method r, status_class (status resp)] 1 c"
      by (rule refl)
    show "handle_request a' r w =
            (resp, w2\<lparr>ctx_metrics := (ctx_metrics w2)
               (DURATION \<mapsto> observe [ge ?r1, request_method r]
                               (int (clock w2) - int (clock w)) h,
                COUNT \<mapsto> observe [ge ?r1, request_method r, status_class (status resp)]
                            1 c)\<rparr>)"
      if "before_handler args = None \<and> after_handler args = None"
      using that by (rule dflt [THEN conjunct2])
  qed (simp_all add: tot len)
qed

theorem monitored_request_recorded_once_witness:
  "monitor example_pkg example_app default_args example_world =
     Inr (example_setup, example_monitored) \<and>
   fst (handle_request example_monitored example_request
          (server_start example_monitored example_world)) = raw (Bytes ''ok'') ''text/plain'' \<and>
   ctx_metrics (snd (handle_request example_monitored example_request
                       (server_start example_monitored example_world))) DURATION =
     Some \<lparr>label_names = [''endpoint'', ''method''],
           observations = [([''/users'', ''GET''], 5)]\<rparr> \<and>
   ctx_metrics (snd (handle_request example_monitored example_request
                       (server_start example_monitored example_world))) COUNT =
     Some \<lparr>label_names = [''endpoint'', ''method'', ''status''],
           observations = [([''/users'', ''GET'', ''2xx''], 1)]\<rparr>"
proof -
  let ?w = "server_start example_monitored example_world"
  let ?w2 = "?w\<lparr>clock := clock ?w + 5\<rparr>"
  have fresh: "request_middleware example_app = [] \<and> response_middleware example_app = []"
    by (simp add: example_app_def route_def Sanic_def)
  have mw: "is_middleware default_args = PyBool True"
    and dflt: "before_handler default_args = None \<and> after_handler default_args = None"
    and incl: "path example_request \<noteq> metrics_path default_args \<and>
               request_method example_request \<noteq> ''OPTIONS''"
    by (simp_all add: default_args_def example_request_def)
  have disp: "dispatch example_monitored (example_request\<lparr>start_time := Some (clock ?w)\<rparr>) ?w =
                (raw (Bytes ''ok'') ''text/plain'', ?w2)"
    by (simp add: dispatch_def example_monitored_def example_request_def orders_handler_def)
  have hist: "ctx_metrics ?w2 DURATION =
                Some \<lparr>label_names = [''endpoint'', ''method''], observations = []\<rparr> \<and>
              label_names \<lparr>label_names = [''endpoint'', ''method''], observations = []\<rparr> =
                [''endpoint'', ''method'']"
    by (simp add: example_started DURATION_def COUNT_def)
  have cnt: "ctx_metrics ?w2 COUNT =
               Some \<lparr>label_names = [''endpoint'', ''method'', ''status''], observations = []\<rparr> \<and>
             label_names \<lparr>label_names = [''endpoint'', ''method'', ''status''],
                          observations = []\<rparr> = [''endpoint'', ''method'', ''status'']"
    by (simp add: example_started DURATION_def COUNT_def)
  have ge: "fn_by_type (endpoint_type default_args) (get_endpoint_fn default_args) =
              Inr (\<lambda>r. resolve_truncate 1 (path r))"
    by (simp add: fn_by_type_def default_args_def)
  have label: "resolve_truncate 1 ''/users/42/orders'' = ''/users''"
    by (simp add: resolve_truncate_def segments_def SEP_def Let_def)
  have cls: "status_class 200 = ''2xx''"
    by (simp add: status_class_def)
  from monitored_request_recorded_once [OF example_monitor fresh mw incl disp hist cnt] dflt
  obtain g h' c' where
    g: "fn_by_type (endpoint_type default_args) (get_endpoint_fn default_args) = Inr g"
    and h': "h' = observe [g (example_request\<lparr>start_time := Some (clock ?w)\<rparr>),
                           request_method example_request] (int (clock ?w2) - int (clock ?w))
                    \<lparr>label_names = [''endpoint'', ''method''], observations = []\<rparr>"
    and c': "c' = observe [g (example_request\<lparr>start_time := Some (clock ?w)\<rparr>),
                           request_method example_request,
                           status_class (status (raw (Bytes ''ok'') ''text/plain''))] 1
                    \<lparr>label_names = [''endpoint'', ''method'', ''status''], observations = []\<rparr>"
    and res: "handle_request example_monitored example_request ?w =
                (raw (Bytes ''ok'') ''text/plain'',
                 ?w2\<lparr>ctx_metrics := (ctx_metrics ?w2)(DURATION \<mapsto> h', COUNT \<mapsto> c')\<rparr>)"
    by blast
  from g ge have g_eq: "g = (\<lambda>r. resolve_truncate 1 (path r))"
    by simp
  have h'_eq: "h' = \<lparr>label_names = [''endpoint'', ''method''],
                     observations = [([''/users'', ''GET''], 5)]\<rparr>"
    by (simp add: h' g_eq observe_def example_request_def label del: One_nat_def)
  have c'_eq: "c' = \<lparr>label_names = [''endpoint'', ''method'', ''status''],
                     observations = [([''/users'', ''GET'', ''2xx''], 1)]\<rparr>"
    by (simp add: c' g_eq observe_def example_request_def label raw_def cls del: One_nat_def)
  show ?thesis
    by (simp add: example_monitor res h'_eq c'_eq DURATION_def COUNT_def)
qed

text \<open>
  Claim C2. For a request whose path is the metrics path (any method) or whose method is
  OPTIONS (any path), the middleware registered by \<^verbatim>\<open>monitor\<close> calls neither hook: the
  request and the state pass through unchanged, the whole cycle is the handler alone, and
  a request to the exposed metrics path leaves the state exactly as it was.
\<close>

theorem excluded_request_not_instrumented:
  assumes mon: "monitor pkg a args w0 = Inr (setup, a')"
    and fresh: "request_middleware a = [] \<and> response_middleware a = []"
    and excl: "path r = metrics_path args \<or> request_method r = ''OPTIONS''"
  shows "run_request_middleware (request_middleware a') r w = (r, w) \<and>
         run_response_middleware (response_middleware a') r resp w = w \<and>
         handle_request a' r w = dispatch a' r w \<and>
         (path r = metrics_path args \<and> find_route (routes a) (metrics_path args) = None
            \<longrightarrow> snd (handle_request (expose_endpoint setup a') r w) = w)"
proof -
  from monitor_Inr [OF mon] obtain ge where
    rq: "request_middleware a' =
           (if is_middleware args = PyBool True
            then [before_request (metrics_path args) (before_hook args)] else [])"
    and rs: "response_middleware a' =
           (if is_middleware args = PyBool True
            then [before_response (metrics_path args) (after_hook args) ge] else [])"
    and rt: "routes a' = routes a"
    and st: "self_metrics_path setup = metrics_path args"
    using fresh by auto
  have 1: "run_request_middleware (request_middleware a') r w = (r, w)" for w
    using excl by (auto simp: rq before_request_def)
  have 2: "run_response_middleware (response_middleware a') r resp w = w" for resp w
    using excl by (auto simp: rs before_response_def)
  have 3: "handle_request a' r w = dispatch a' r w"
    by (simp add: handle_request_def 1 2 split: prod.splits)
  have 4: "snd (handle_request (expose_endpoint setup a') r w) = w"
    if "path r = metrics_path args" "find_route (routes a) (metrics_path args) = None"
    using that 1 2
    by (simp add: handle_request_def expose_endpoint_def route_def dispatch_def rt st
        find_route_append
        expose_metrics_def error_response_def split: prod.splits sum.splits)
  from 1 2 3 4 show ?thesis by blast
qed

theorem excluded_request_not_instrumented_witness:
  "monitor example_pkg example_app default_args example_world =
     Inr (example_setup, example_monitored) \<and>
   path scrape_request = metrics_path default_args \<and>
   request_method options_request = ''OPTIONS'' \<and>
   handle_request example_monitored options_request
     (server_start example_monitored example_world) =
     (error_response 405, server_start example_monitored example_world) \<and>
   snd (handle_request (expose_endpoint example_setup example_monitored) scrape_request
          (server_start example_monitored example_world)) =
     server_start example_monitored example_world"
proof -
  let ?w = "server_start example_monitored example_world"
  have e1: "path options_request = metrics_path default_args \<or>
            request_method options_request = ''OPTIONS''"
    and e2: "path scrape_request = metrics_path default_args \<or>
             request_method scrape_request = ''OPTIONS''"
    by (simp_all add: options_request_def scrape_request_def default_args_def)
  have free: "path scrape_request = metrics_path default_args \<and>
              find_route (routes example_app) (metrics_path default_args) = None"
    by (simp add: scrape_request_def default_args_def example_app_def route_def Sanic_def)
  have d: "dispatch example_monitored options_request ?w = (error_response 405, ?w)"
    by (simp add: dispatch_def example_monitored_def options_request_def)
  from excluded_request_not_instrumented [OF example_monitor example_app_fresh e1, of ?w]
    excluded_request_not_instrumented [OF example_monitor example_app_fresh e2, of ?w]
    free d
  show ?thesis
    by (simp add: example_monitor options_request_def)
qed

text \<open>
  Claim C3, as amended. \<^verbatim>\<open>start_server\<close> raises \<^verbatim>\<open>SanicPrometheusError\<close> exactly when the
  multiprocess flag is set, and then before the library call: the state is unchanged and
  no listener is bound. When the flag is off, \<^verbatim>\<open>start_server\<close> is the library call
  \<^verbatim>\<open>start_http_server(addr, port)\<close> and nothing else: it binds the listener when the port
  is within 0..65535 and the address is free, and otherwise the library's own exception
  leaves \<^verbatim>\<open>start_server\<close>, again with no listener bound.
\<close>

theorem start_server_configuration_error_iff_multiprocess:
  "(self_multiprocess_on self \<longrightarrow>
      start_server self addr port w =
        (Inl (SanicPrometheusError
                ''start_server can not be used when multiprocessing is turned on''), w)) \<and>
   (\<not> self_multiprocess_on self \<longrightarrow>
      start_server self addr port w = start_http_server addr port w) \<and>
   ((\<exists>msg. fst (start_server self addr port w) = Inl (SanicPrometheusError msg))
      \<longleftrightarrow> self_multiprocess_on self) \<and>
   (\<not> self_multiprocess_on self \<and> 0 \<le> port \<and> port \<le> 65535 \<and>
    \<not> address_in_use addr port w \<longrightarrow>
      start_server self addr port w =
        (Inr (), w\<lparr>http_servers := http_servers w @ [(addr, port)]\<rparr>)) \<and>
   (isl (fst (start_server self addr port w)) \<longrightarrow> snd (start_server self addr port w) = w)"
  by (simp add: start_server_def start_http_server_def)

theorem start_server_configuration_error_iff_multiprocess_witness:
  "self_multiprocess_on example_setup_mp \<and> \<not> self_multiprocess_on example_setup \<and>
   \<not> address_in_use [] 8000 example_world \<and>
   start_server example_setup_mp [] 8000 example_world_mp =
     (Inl (SanicPrometheusError
             ''start_server can not be used when multiprocessing is turned on''),
      example_world_mp) \<and>
   start_server example_setup [] 8000 example_world =
     (Inr (), example_world\<lparr>http_servers := [([], 8000)]\<rparr>)"
proof -
  have on: "self_multiprocess_on example_setup_mp"
    and off: "\<not> self_multiprocess_on example_setup"
    by (simp_all add: example_setup_mp_def example_setup_def)
  have free: "\<not> address_in_use [] 8000 example_world"
    and none: "http_servers example_world = []"
    by (simp_all add: address_in_use_def example_world_def)
  from start_server_configuration_error_iff_multiprocess
         [of example_setup_mp "[]" 8000 example_world_mp] on
  have refused: "start_server example_setup_mp [] 8000 example_world_mp =
                   (Inl (SanicPrometheusError
                           ''start_server can not be used when multiprocessing is turned on''),
                    example_world_mp)"
    by blast
  have range: "(0::int) \<le> 8000 \<and> (8000::int) \<le> 65535"
    by simp
  from start_server_configuration_error_iff_multiprocess
         [of example_setup "[]" 8000 example_world] off free range
  have bound: "start_server example_setup [] 8000 example_world =
                 (Inr (), example_world\<lparr>http_servers := http_servers example_world @
                                                              [([], 8000)]\<rparr>)"
    by blast
  show ?thesis
    by (simp add: on off free refused bound none)
qed

text \<open>
  Claim C3 as stated fails: with the multiprocess flag off, \<^verbatim>\<open>start_server\<close> raises for
  a port outside 0..65535 and for an address that is already bound.
\<close>

theorem start_server_raises_without_multiprocess_counterexample:
  "\<not> self_multiprocess_on example_setup \<and>
   fst (start_server example_setup [] 70000 example_world) = Inl OverflowError \<and>
   fst (start_server example_setup [] 8000
          (snd (start_server example_setup [] 8000 example_world))) = Inl OSError"
  by (simp add: start_server_def start_http_server_def address_in_use_def example_setup_def
      example_world_def)





text \<open>
  Claim C6, as amended. For every path and every bound \<open>n \<ge> 1\<close>, the label in truncate
  mode has at most \<open>n\<close> segments; a path with at most \<open>n\<close> segments is returned unchanged;
  two paths that both have more than \<open>n\<close> segments and share their first \<open>n\<close> non-empty
  segments get the same label; and in every case two paths sharing their first \<open>n\<close>
  non-empty segments get labels with the same segments.
\<close>

theorem resolve_truncate_bounded_prefix:
  assumes "1 \<le> n"
  shows "length (segments (resolve_truncate n p)) \<le> n \<and>
         segments (resolve_truncate n p) = take n (segments p) \<and>
         (length (segments p) \<le> n \<longrightarrow> resolve_truncate n p = p) \<and>
         (n < length (segments p) \<and> n < length (segments q) \<and>
            take n (segments p) = take n (segments q)
            \<longrightarrow> resolve_truncate n p = resolve_truncate n q) \<and>
         (take n (segments p) = take n (segments q)
            \<longrightarrow> segments (resolve_truncate n p) = segments (resolve_truncate n q))"
  by (simp add: segments_resolve_truncate) (simp add: resolve_truncate_def)

theorem resolve_truncate_bounded_prefix_witness:
  "(1::nat) \<le> 1 \<and> length (segments ''/users/42/orders'') = 3 \<and>
   length (segments ''/users/7'') = 2 \<and>
   take 1 (segments ''/users/42/orders'') = take 1 (segments ''/users/7'') \<and>
   resolve_truncate 1 ''/users/42/orders'' = ''/users'' \<and>
   resolve_truncate 1 ''/users/7'' = ''/users'' \<and>
   length (segments ''/users'') \<le> 1 \<and>
   resolve_truncate 1 ''/users'' = ''/users''"
  using resolve_truncate_bounded_prefix [of 1 "''/users/42/orders''" "''/users/7''"]
    resolve_truncate_bounded_prefix [of 1 "''/users''" "''/users''"]
  by (simp add: resolve_truncate_def segments_def SEP_def Let_def)

text \<open>
  Claim C6 as stated fails: \<^verbatim>\<open>/a\<close> and \<^verbatim>\<open>/a/\<close> share their first non-empty segment, both
  have at most one segment and are returned unchanged, so their labels differ.
\<close>

theorem resolve_truncate_prefix_counterexample:
  "(1::nat) \<le> 1 \<and> take 1 (segments ''/a'') = take 1 (segments ''/a/'') \<and>
   resolve_truncate 1 ''/a'' \<noteq> resolve_truncate 1 ''/a/''"
  by (simp add: resolve_truncate_def segments_def SEP_def Let_def)

text \<open>
  Claim C7. \<^verbatim>\<open>monitor\<close> registers an \<^verbatim>\<open>after_server_stop\<close> listener exactly when the
  multiprocess environment variable is present; the listener marks the process's own
  identifier dead. On an application without other stop listeners, server shutdown marks
  \<^verbatim>\<open>os.getpid()\<close> dead in multiprocess mode and does nothing in single-process mode.
\<close>

theorem shutdown_hook_iff_multiprocess:
  assumes mon: "monitor pkg a args w0 = Inr (setup, a')"
  shows "self_multiprocess_on setup = (environ w0 ''prometheus_multiproc_dir'' \<noteq> None) \<and>
         stop_hooks a' = stop_hooks a @
           (if self_multiprocess_on setup then [(''after_server_stop'', after_stop)] else []) \<and>
         after_stop w = mark_process_dead (pid w) w \<and>
         (stop_hooks a = [] \<longrightarrow>
            server_stop a' w =
              (if self_multiprocess_on setup then w\<lparr>dead_pids := dead_pids w @ [pid w]\<rparr>
               else w))"
proof -
  from monitor_Inr [OF mon] have
    st: "self_multiprocess_on setup = (environ w0 ''prometheus_multiproc_dir'' \<noteq> None)"
    and ls: "listeners a' = listeners a @
      [(''before_server_start'',
        before_start pkg args
          (if base_metrics args = PyNone then BaseMetrics pkg else base_metrics args))] @
      (if environ w0 ''prometheus_multiproc_dir'' \<noteq> None
       then [(''after_server_stop'', after_stop)] else [])"
    by auto
  have hooks: "stop_hooks a' = stop_hooks a @
           (if self_multiprocess_on setup then [(''after_server_stop'', after_stop)] else [])"
    by (simp add: stop_hooks_def ls st)
  have "server_stop a' w = run_listeners (rev (stop_hooks a')) ''after_server_stop'' w"
    by (simp add: server_stop_def stop_hooks_def rev_filter run_listeners_filter)
  then have "stop_hooks a = [] \<longrightarrow>
            server_stop a' w =
              (if self_multiprocess_on setup then w\<lparr>dead_pids := dead_pids w @ [pid w]\<rparr>
               else w)"
    by (simp add: hooks after_stop_def mark_process_dead_def)
  with st hooks show ?thesis
    by (simp add: after_stop_def)
qed

theorem shutdown_hook_iff_multiprocess_witness:
  "monitor example_pkg example_app default_args example_world_mp =
     Inr (example_setup_mp, example_monitored_mp) \<and>
   monitor example_pkg example_app default_args example_world =
     Inr (example_setup, example_monitored) \<and>
   stop_hooks example_app = [] \<and>
   dead_pids (server_stop example_monitored_mp example_world_mp) = [17] \<and>
   server_stop example_monitored example_world = example_world"
proof -
  have none: "stop_hooks example_app = []"
    by (simp add: stop_hooks_def example_app_def route_def Sanic_def)
  have s: "self_multiprocess_on example_setup_mp" "\<not> self_multiprocess_on example_setup"
    by (simp_all add: example_setup_mp_def example_setup_def)
  from shutdown_hook_iff_multiprocess [OF example_monitor_mp, of example_world_mp] none s
  have on: "server_stop example_monitored_mp example_world_mp =
              example_world_mp\<lparr>dead_pids := dead_pids example_world_mp @
                                            [pid example_world_mp]\<rparr>"
    by simp
  from shutdown_hook_iff_multiprocess [OF example_monitor, of example_world] none s
  have off: "server_stop example_monitored example_world = example_world"
    by simp
  have fields: "dead_pids example_world_mp = []" "pid example_world_mp = 17"
    by (simp_all add: example_world_mp_def example_world_def)
  show ?thesis
    by (simp add: example_monitor_mp example_monitor none on off fields)
qed




text \<open>
  Claim C9. When \<^verbatim>\<open>is_middleware\<close> is anything but the boolean \<^verbatim>\<open>True\<close>, \<^verbatim>\<open>monitor\<close>
  registers no middleware: every request, excluded or not, is the handler alone. The
  exposition endpoint still answers a GET at the metrics path with what the scrape returns
  (the registry's serialisation), and in single-process mode \<^verbatim>\<open>start_server\<close> is still
  the library call that binds the listener.
\<close>

theorem middleware_only_when_True:
  assumes mon: "monitor pkg a args w0 = Inr (setup, a')"
    and off: "is_middleware args \<noteq> PyBool True"
  shows "request_middleware a' = request_middleware a \<and>
         response_middleware a' = response_middleware a \<and>
         (request_middleware a = [] \<and> response_middleware a = []
            \<longrightarrow> handle_request a' r w = dispatch a' r w) \<and>
         (find_route (routes a) (metrics_path args) = None
            \<longrightarrow> dispatch (expose_endpoint setup a')
                  \<lparr>path = metrics_path args, request_method = ''GET'', start_time = None\<rparr> w =
                ((case get_metrics_data setup w of
                    Inl e \<Rightarrow> error_response 500
                  | Inr data \<Rightarrow> raw (Exposition data) CONTENT_TYPE_LATEST), w)) \<and>
         (\<not> self_multiprocess_on setup
            \<longrightarrow> start_server setup addr port w = start_http_server addr port w)"
proof -
  from monitor_Inr [OF mon] off have
    rq: "request_middleware a' = request_middleware a"
    and rs: "response_middleware a' = response_middleware a"
    and rt: "routes a' = routes a"
    and st: "self_metrics_path setup = metrics_path args"
    by auto
  have cyc: "handle_request a' r w = dispatch a' r w"
    if "request_middleware a = [] \<and> response_middleware a = []"
    using that by (simp add: handle_request_def rq rs split: prod.splits)
  have ep: "dispatch (expose_endpoint setup a')
              \<lparr>path = metrics_path args, request_method = ''GET'', start_time = None\<rparr> w =
            ((case get_metrics_data setup w of
                Inl e \<Rightarrow> error_response 500
              | Inr data \<Rightarrow> raw (Exposition data) CONTENT_TYPE_LATEST), w)"
    if "find_route (routes a) (metrics_path args) = None"
    using that
    by (simp add: expose_endpoint_def route_def dispatch_def find_route_append rt st
        expose_metrics_def split: sum.splits)
  from rq rs cyc ep show ?thesis
    by (simp add: start_server_def)
qed

theorem middleware_only_when_True_witness:
  "monitor example_pkg example_app (default_args\<lparr>is_middleware := PyInt 1\<rparr>) example_world =
     Inr (example_setup, example_unmonitored) \<and>
   is_middleware (default_args\<lparr>is_middleware := PyInt 1\<rparr>) \<noteq> PyBool True \<and>
   request_middleware example_unmonitored = [] \<and>
   response_middleware example_unmonitored = [] \<and>
   handle_request example_unmonitored example_request example_world =
     (raw (Bytes ''ok'') ''text/plain'', example_world\<lparr>clock := 105\<rparr>) \<and>
   dispatch (expose_endpoint example_setup example_unmonitored) scrape_request example_world =
     (raw (Exposition [\<lparr>sample_name = ''process_open_fds'', sample_labels = [],
                        sample_value = 8\<rparr>]) CONTENT_TYPE_LATEST, example_world) \<and>
   start_server example_setup [] 8000 example_world =
     (Inr (), example_world\<lparr>http_servers := [([], 8000)]\<rparr>)"
proof -
  let ?args = "default_args\<lparr>is_middleware := PyInt 1\<rparr>"
  have off: "is_middleware ?args \<noteq> PyBool True"
    by simp
  have free: "find_route (routes example_app) (metrics_path ?args) = None"
    by (simp add: example_app_def route_def Sanic_def default_args_def)
  have sp: "\<not> self_multiprocess_on example_setup"
    by (simp add: example_setup_def)
  have none: "request_middleware example_unmonitored = []"
    "response_middleware example_unmonitored = []"
    by (simp_all add: example_unmonitored_def example_app_def route_def Sanic_def)
  have d: "dispatch example_unmonitored example_request example_world =
             (raw (Bytes ''ok'') ''text/plain'', example_world\<lparr>clock := 105\<rparr>)"
    by (simp add: dispatch_def example_unmonitored_def example_app_def route_def Sanic_def
        example_request_def orders_handler_def example_world_def)
  have sr: "\<lparr>path = metrics_path default_args, request_method = ''GET'', start_time = None\<rparr> =
              scrape_request"
    by (simp add: scrape_request_def default_args_def)
  have loc: "get_metrics_data example_setup example_world =
               Inr [\<lparr>sample_name = ''process_open_fds'', sample_labels = [],
                     sample_value = 8\<rparr>]"
    by (simp add: get_metrics_data_def generate_latest_def example_world_def example_setup_def)
  have bound: "start_http_server [] 8000 example_world =
                 (Inr (), example_world\<lparr>http_servers := [([], 8000)]\<rparr>)"
    by (simp add: start_http_server_def address_in_use_def example_world_def)
  from middleware_only_when_True
         [OF example_monitor_off off, of example_request example_world "[]" 8000]
    example_app_fresh free sp
  have "handle_request example_unmonitored example_request example_world =
          dispatch example_unmonitored example_request example_world"
    and "dispatch (expose_endpoint example_setup example_unmonitored) scrape_request
           example_world =
         ((case get_metrics_data example_setup example_world of
             Inl e \<Rightarrow> error_response 500
           | Inr data \<Rightarrow> raw (Exposition data) CONTENT_TYPE_LATEST), example_world)"
    and "start_server example_setup [] 8000 example_world =
           start_http_server [] 8000 example_world"
    by (simp_all add: sr)
  then show ?thesis
    by (simp add: example_monitor_off none d loc bound)
qed

text \<open>
  Claim C10. In single-process mode the scrape is the serialisation of the process-global
  registry as it is at that moment: it contains the samples of every collector registered
  there, and a collector registered by any other code is served too. In multiprocess mode
  the scrape does not depend on the global registry.
\<close>

theorem single_process_scrape_reads_global_registry:
  "(\<not> self_multiprocess_on self \<longrightarrow>
      get_metrics_data self w = Inr (concat (map (collect w) (REGISTRY w))) \<and>
      (\<forall>c \<in> set (REGISTRY w).
         set (collect w c) \<subseteq> set (projr (get_metrics_data self w))) \<and>
      get_metrics_data self (w\<lparr>REGISTRY := REGISTRY w @ [c']\<rparr>) =
        Inr (projr (get_metrics_data self w) @ collect w c')) \<and>
   (self_multiprocess_on self \<longrightarrow>
      get_metrics_data self (w\<lparr>REGISTRY := reg\<rparr>) = get_metrics_data self w)"
proof -
  have live: "live_shards (w\<lparr>REGISTRY := reg\<rparr>) p = live_shards w p" for reg p
    by (simp add: live_shards_def)
  have "collect (w\<lparr>REGISTRY := reg\<rparr>) c = collect w c" for c reg
    by (cases c) (simp_all add: live)
  then have col: "collect (w\<lparr>REGISTRY := reg\<rparr>) = collect w" for reg
    by (simp add: fun_eq_iff)
  show ?thesis
    by (auto simp: get_metrics_data_def generate_latest_def col
        register_MultiProcessCollector_def split: option.splits)
qed

theorem single_process_scrape_reads_global_registry_witness:
  "\<not> self_multiprocess_on example_setup \<and> self_multiprocess_on example_setup_mp \<and>
   get_metrics_data example_setup (server_start example_monitored example_world) =
     Inr [\<lparr>sample_name = ''process_open_fds'', sample_labels = [], sample_value = 8\<rparr>] \<and>
   get_metrics_data example_setup
     (snd (handle_request example_monitored example_request
             (server_start example_monitored example_world))) =
     Inr [\<lparr>sample_name = ''process_open_fds'', sample_labels = [], sample_value = 8\<rparr>,
          \<lparr>sample_name = ''request_duration'',
           sample_labels = [(''endpoint'', ''/users''), (''method'', ''GET'')],
           sample_value = 5\<rparr>,
          \<lparr>sample_name = ''request_count'',
           sample_labels = [(''endpoint'', ''/users''), (''method'', ''GET''),
                            (''status'', ''2xx'')],
           sample_value = 1\<rparr>] \<and>
   get_metrics_data example_setup_mp (example_world_mp\<lparr>REGISTRY := []\<rparr>) =
     get_metrics_data example_setup_mp example_world_mp"
proof -
  let ?w = "server_start example_monitored example_world"
  let ?w3 = "snd (handle_request example_monitored example_request ?w)"
  have s: "\<not> self_multiprocess_on example_setup" "self_multiprocess_on example_setup_mp"
    by (simp_all add: example_setup_mp_def example_setup_def)
  have r0: "concat (map (collect ?w) (REGISTRY ?w)) =
     [\<lparr>sample_name = ''process_open_fds'', sample_labels = [], sample_value = 8\<rparr>]"
    by (simp add: example_started example_world_def samples_of_def DURATION_def COUNT_def)
  have r3: "concat (map (collect ?w3) (REGISTRY ?w3)) =
     [\<lparr>sample_name = ''process_open_fds'', sample_labels = [], sample_value = 8\<rparr>,
      \<lparr>sample_name = ''request_duration'',
       sample_labels = [(''endpoint'', ''/users''), (''method'', ''GET'')], sample_value = 5\<rparr>,
      \<lparr>sample_name = ''request_count'',
       sample_labels = [(''endpoint'', ''/users''), (''method'', ''GET''), (''status'', ''2xx'')],
       sample_value = 1\<rparr>]"
    by (simp add: example_cycle example_world_def samples_of_def DURATION_def COUNT_def)
  from single_process_scrape_reads_global_registry [where self = example_setup and w = ?w]
    single_process_scrape_reads_global_registry [where self = example_setup and w = ?w3]
    single_process_scrape_reads_global_registry
      [where self = example_setup_mp and w = example_world_mp and reg = "[]"]
    s r0 r3
  show ?thesis
    by simp
qed

end
